theory Spec2Isabelle
  imports Complex_Main "HOL-Library.Log_Nat" "HOL-Library.Sublist"
begin

section \<open>Numbers of the scripts\<close>

text \<open>
  The scripts are JavaScript: every number is an IEEE 754 binary64 value. The only
  arithmetic whose rounding matters is the product in \<^verbatim>\<open>randomItem\<close>,
  \<^verbatim>\<open>Math.random() * array.length\<close>. A non-negative binary64 value below 2 to the
  1024 is a multiple of the smallest subnormal, 2 to the -1074, so it is written here as
  the natural number of such units it holds: \<open>units\<close> is the number 1.
\<close>

definition units :: nat where
  "units = 2 ^ 1074"

text \<open>
  Rounding an exact non-negative result, given in units, to binary64: a value of at
  most 53 significant bits is kept; a longer one keeps its 53 leading bits, rounded to
  nearest, ties to the even significand. (A value in the subnormal range has fewer than
  53 bits in this scale and is exact, as in IEEE 754.)
\<close>

definition round_binary64 :: "nat \<Rightarrow> nat" where
  "round_binary64 x =
     (let b = floorlog 2 x in
      if b \<le> 53 then x
      else
        let s = b - 53; q = x div 2 ^ s; r = x mod 2 ^ s in
        if 2 * r > 2 ^ s \<or> (2 * r = 2 ^ s \<and> odd q) then (q + 1) * 2 ^ s else q * 2 ^ s)"

text \<open>A number of units is a binary64 value when rounding leaves it alone.\<close>

definition is_binary64 :: "nat \<Rightarrow> bool" where
  "is_binary64 x = (round_binary64 x = x)"

text \<open>
  \<^verbatim>\<open>Math.random()\<close> returns a binary64 value \<open>r\<close> with \<open>0 \<le> r < 1\<close>; which one is the
  environment's choice.
\<close>

definition is_random_value :: "nat \<Rightarrow> bool" where
  "is_random_value j = (is_binary64 j \<and> j < units)"

text \<open>
  \<^verbatim>\<open>Math.floor(Math.random() * array.length)\<close> for the random value \<open>j\<close> (in units) and
  the length \<open>n\<close>: the length is an integer below 2 to the 32, exact as a binary64
  value; the product is the exact product rounded; the floor drops the fraction.
\<close>

definition random_index :: "nat \<Rightarrow> nat \<Rightarrow> nat" where
  "random_index j n = round_binary64 (j * n) div units"

text \<open>
  Reading \<^verbatim>\<open>array[i]\<close>: JavaScript gives \<^verbatim>\<open>undefined\<close> (here \<open>None\<close>) outside the
  array and does not raise.
\<close>

definition js_index :: "'a list \<Rightarrow> nat \<Rightarrow> 'a option" where
  "js_index array i = (if i < length array then Some (array ! i) else None)"

text \<open>
  \<^verbatim>\<open>function randomItem(array) {
    return array[Math.floor(Math.random() * array.length)];
  }\<close>
  with the value \<open>j\<close> that \<^verbatim>\<open>Math.random()\<close> returned.
\<close>

definition randomItem :: "nat \<Rightarrow> 'a list \<Rightarrow> 'a option" where
  "randomItem j array = js_index array (random_index j (length array))"


text \<open>The product catalogue of the scripts.\<close>

definition testProducts :: "string list" where
  "testProducts = [''men-jacket'', ''women-dress'', ''kids-shoes'', ''accessories'']"


section \<open>The load-generation runtime seen from the scripts\<close>

text \<open>
  The scripts import \<^verbatim>\<open>http\<close>, \<^verbatim>\<open>check\<close>, \<^verbatim>\<open>sleep\<close> and the metric classes from the k6
  runtime, which is not part of the repository. What a script can observe of it is
  modelled here; what the outside world decides (responses, network failures, the
  clock, random numbers) is an environment the functions read.
\<close>

record response =
  status :: int
  body :: "string option"
  timings_duration :: real

record request =
  http_method :: string
  url :: string
  payload :: "(string \<times> string) list"
  headers :: "(string \<times> string) list"

datatype js_error = TypeError | GoError

text \<open>
  The environment: what the \<open>k\<close>-th HTTP call gives, a response or the error raised on
  a network failure; the result of the \<open>k\<close>-th call when it is a batch; the \<open>k\<close>-th
  reading of \<^verbatim>\<open>Date.now()\<close> in milliseconds; and the \<open>k\<close>-th value of \<^verbatim>\<open>Math.random()\<close>
  in units.
\<close>

record env =
  http_response :: "nat \<Rightarrow> request \<Rightarrow> js_error + response"
  http_batch_result :: "nat \<Rightarrow> response list \<Rightarrow> js_error + response list"
  date_now :: "nat \<Rightarrow> int"
  math_random :: "nat \<Rightarrow> nat"

datatype console_line =
  Starting_tests | Target_URL string | Warmup_failed | Tests_completed | Test_duration int

text \<open>
  The custom metrics of the script, by the names of its constants:
  \<^verbatim>\<open>const errorRate = new Rate('error_rate');
  const pageLoadTime = new Trend('page_load_time');
  const apiResponseTime = new Trend('api_response_time');
  const checkoutErrors = new Counter('checkout_errors');\<close>
  with the samples of the built-in \<^verbatim>\<open>checks\<close> metric, the console, and how many HTTP
  calls, clock readings and random draws have been made.
\<close>

record run_state =
  error_rate :: "nat \<times> nat"
  page_load_time :: "real list"
  api_response_time :: "real list"
  checkout_errors :: int
  checks :: "(string \<times> bool) list"
  console :: "console_line list"
  http_calls :: nat
  clock_reads :: nat
  random_draws :: nat

text \<open>
  Modelled from the spec: the metric classes of the k6 runtime are not in the
  repository. A Counter is an integer total and \<^verbatim>\<open>add\<close> adds to it; a Rate counts the
  boolean observations that were true (numerator) among all of them (denominator); a
  Trend keeps its numeric observations.
\<close>

definition Counter_add :: "int \<Rightarrow> int \<Rightarrow> int" where
  "Counter_add v count = count + v"

definition Rate_add :: "bool \<Rightarrow> nat \<times> nat \<Rightarrow> nat \<times> nat" where
  "Rate_add b r = ((if b then fst r + 1 else fst r), snd r + 1)"

definition Trend_add :: "real \<Rightarrow> real list \<Rightarrow> real list" where
  "Trend_add v samples = samples @ [v]"

definition errorRate_add :: "bool \<Rightarrow> run_state \<Rightarrow> run_state" where
  "errorRate_add b s = s\<lparr>error_rate := Rate_add b (error_rate s)\<rparr>"

definition pageLoadTime_add :: "real \<Rightarrow> run_state \<Rightarrow> run_state" where
  "pageLoadTime_add v s = s\<lparr>page_load_time := Trend_add v (page_load_time s)\<rparr>"

definition apiResponseTime_add :: "real \<Rightarrow> run_state \<Rightarrow> run_state" where
  "apiResponseTime_add v s = s\<lparr>api_response_time := Trend_add v (api_response_time s)\<rparr>"

definition checkoutErrors_add :: "int \<Rightarrow> run_state \<Rightarrow> run_state" where
  "checkoutErrors_add v s = s\<lparr>checkout_errors := Counter_add v (checkout_errors s)\<rparr>"

text \<open>
  Modelled from the spec: \<^verbatim>\<open>Date.now\<close>, \<^verbatim>\<open>Math.random\<close>, \<^verbatim>\<open>http.get\<close>, \<^verbatim>\<open>http.post\<close>,
  \<^verbatim>\<open>http.batch\<close>, \<^verbatim>\<open>sleep\<close> and \<^verbatim>\<open>console\<close> belong to the runtime. Each call reads the
  environment at the next position. The request function returns status, timing and
  body, or raises on network failure; a batch may be refused with an error as well.
  \<^verbatim>\<open>sleep\<close> only lets time pass: the clock is the environment's, so the state is as
  before.
\<close>

definition Date_now :: "env \<Rightarrow> run_state \<Rightarrow> int \<times> run_state" where
  "Date_now e s = (date_now e (clock_reads s), s\<lparr>clock_reads := clock_reads s + 1\<rparr>)"

definition Math_random :: "env \<Rightarrow> run_state \<Rightarrow> nat \<times> run_state" where
  "Math_random e s = (math_random e (random_draws s), s\<lparr>random_draws := random_draws s + 1\<rparr>)"

definition http_request ::
  "env \<Rightarrow> request \<Rightarrow> run_state \<Rightarrow> (js_error + response) \<times> run_state" where
  "http_request e rq s = (http_response e (http_calls s) rq, s\<lparr>http_calls := http_calls s + 1\<rparr>)"

definition http_get :: "env \<Rightarrow> string \<Rightarrow> run_state \<Rightarrow> (js_error + response) \<times> run_state" where
  "http_get e u s = http_request e \<lparr>http_method = ''GET'', url = u, payload = [], headers = []\<rparr> s"

definition http_post ::
  "env \<Rightarrow> string \<Rightarrow> (string \<times> string) list \<Rightarrow> (string \<times> string) list \<Rightarrow> run_state
   \<Rightarrow> (js_error + response) \<times> run_state" where
  "http_post e u p h s = http_request e \<lparr>http_method = ''POST'', url = u, payload = p, headers = h\<rparr> s"

definition http_batch ::
  "env \<Rightarrow> response list \<Rightarrow> run_state \<Rightarrow> (js_error + response list) \<times> run_state" where
  "http_batch e rqs s =
     (http_batch_result e (http_calls s) rqs, s\<lparr>http_calls := http_calls s + 1\<rparr>)"

definition sleep :: "real \<Rightarrow> run_state \<Rightarrow> run_state" where
  "sleep t s = s"

definition console_log :: "console_line \<Rightarrow> run_state \<Rightarrow> run_state" where
  "console_log l s = s\<lparr>console := console s @ [l]\<rparr>"

text \<open>
  A function of a script returns, or throws with the state it reached: the samples it
  added before the exception stay.
\<close>

datatype outcome = Returned run_state | Threw js_error run_state

fun final :: "outcome \<Rightarrow> run_state" where
  "final (Returned s) = s"
| "final (Threw e s) = s"

fun and_then :: "outcome \<Rightarrow> (run_state \<Rightarrow> outcome) \<Rightarrow> outcome" where
  "and_then (Returned s) f = f s"
| "and_then (Threw e s) f = Threw e s"

text \<open>
  The script goes on with the response of a call; an error raised by the call is not
  caught by any script, so it leaves the function.
\<close>

definition with_response ::
  "(js_error + response) \<times> run_state \<Rightarrow> (response \<Rightarrow> run_state \<Rightarrow> outcome) \<Rightarrow> outcome" where
  "with_response x f = (case fst x of Inl err \<Rightarrow> Threw err (snd x) | Inr r \<Rightarrow> f r (snd x))"

text \<open>
  Modelled from the spec: \<^verbatim>\<open>check(response, {name: predicate, ...})\<close> of the runtime
  applies the predicates in order and adds one sample per predicate to the checks; an
  exception of a predicate leaves the call.
\<close>

definition add_check :: "string \<Rightarrow> bool \<Rightarrow> run_state \<Rightarrow> run_state" where
  "add_check name passed s = s\<lparr>checks := checks s @ [(name, passed)]\<rparr>"

fun check ::
  "response \<Rightarrow> (string \<times> (response \<Rightarrow> js_error + bool)) list \<Rightarrow> run_state \<Rightarrow> outcome" where
  "check r [] s = Returned s"
| "check r (np # rest) s =
     (case snd np r of
        Inl e \<Rightarrow> Threw e s
      | Inr b \<Rightarrow> check r rest (add_check (fst np) b s))"

section \<open>The scripts\<close>

definition BASE_URL :: string where
  "BASE_URL = ''http://localhost:9090''"

text \<open>A template literal writes \<^verbatim>\<open>undefined\<close> for a value that is not there.\<close>

definition template :: "string option \<Rightarrow> string" where
  "template v = (case v of None \<Rightarrow> ''undefined'' | Some x \<Rightarrow> x)"

fun decimal :: "nat \<Rightarrow> string" where
  "decimal n =
     (if n < 10 then [char_of (48 + n)] else decimal (n div 10) @ [char_of (48 + n mod 10)])"

text \<open>The predicates of the checks, as the scripts write them.\<close>

definition status_is_200 :: "response \<Rightarrow> js_error + bool" where
  "status_is_200 r = Inr (status r = 200)"

definition status_is_200_or_201 :: "response \<Rightarrow> js_error + bool" where
  "status_is_200_or_201 r = Inr (status r = 200 \<or> status r = 201)"

definition duration_below :: "real \<Rightarrow> response \<Rightarrow> js_error + bool" where
  "duration_below limit r = Inr (timings_duration r < limit)"

text \<open>
  \<^verbatim>\<open>(r) => r.body.includes('EverShop') || r.body.includes('Welcome')\<close>: reading
  \<^verbatim>\<open>includes\<close> of a body that is \<^verbatim>\<open>null\<close> is a TypeError.
\<close>

definition body_contains_title :: "response \<Rightarrow> js_error + bool" where
  "body_contains_title r =
     (case body r of
        None \<Rightarrow> Inl TypeError
      | Some b \<Rightarrow> Inr (sublist ''EverShop'' b \<or> sublist ''Welcome'' b))"

definition smokeTest :: "env \<Rightarrow> run_state \<Rightarrow> outcome" where
  "smokeTest e s0 =
     (let (startTime, s1) = Date_now e s0
      in with_response (http_get e (BASE_URL @ ''/'') s1)
      (\<lambda>response s2.
         and_then
           (check response
              [(''Homepage loads successfully'', status_is_200),
               (''Homepage contains title'', body_contains_title)] s2)
           (\<lambda>s3.
              let (now, s4) = Date_now e s3;
                  s5 = pageLoadTime_add (of_int (now - startTime)) s4;
                  s6 = errorRate_add (status response \<noteq> 200) s5
              in Returned (sleep 1 s6))))"

text \<open>\<^verbatim>\<open>sleep(Math.random() * 2 + 1)\<close>: a draw, then the pause.\<close>

definition random_sleep :: "env \<Rightarrow> run_state \<Rightarrow> run_state" where
  "random_sleep e s = (let (j, s1) = Math_random e s in sleep (real j / real units * 2 + 1) s1)"

definition loadTest :: "env \<Rightarrow> run_state \<Rightarrow> outcome" where
  "loadTest e s0 =
     (let (startTime, s1) = Date_now e s0
      in with_response (http_get e (BASE_URL @ ''/'') s1)
      (\<lambda>response s2.
         and_then (check response [(''Homepage status is 200'', status_is_200)] s2)
      (\<lambda>s3.
         let s4 = random_sleep e s3
         in with_response (http_get e (BASE_URL @ ''/products'') s4)
      (\<lambda>response s5.
         and_then (check response [(''Products page loads'', status_is_200)] s5)
      (\<lambda>s6.
         let s7 = random_sleep e s6;
             (j, s8) = Math_random e s7;
             searchTerm = randomItem j [''jacket'', ''dress'', ''shoes'', ''accessories'']
         in with_response (http_get e (BASE_URL @ ''/search?q='' @ template searchTerm) s8)
      (\<lambda>response s9.
         and_then (check response [(''Search works'', status_is_200)] s9)
      (\<lambda>s10.
         let s11 = random_sleep e s10;
             (j, s12) = Math_random e s11;
             productSlug = randomItem j testProducts
         in with_response (http_get e (BASE_URL @ ''/product/'' @ template productSlug) s12)
      (\<lambda>response s13.
         and_then (check response [(''Product detail loads'', status_is_200)] s13)
      (\<lambda>s14.
         let (now, s15) = Date_now e s14;
             s16 = pageLoadTime_add (of_int (now - startTime)) s15;
             s17 = errorRate_add (status response \<noteq> 200) s16
         in Returned (sleep 1 s17))))))))))"

text \<open>The five actions of \<^verbatim>\<open>stressTest\<close>; the last one draws its product.\<close>

definition userJourney :: "(env \<Rightarrow> run_state \<Rightarrow> (js_error + response) \<times> run_state) list" where
  "userJourney =
     [\<lambda>e. http_get e (BASE_URL @ ''/''),
      \<lambda>e. http_get e (BASE_URL @ ''/products''),
      \<lambda>e. http_get e (BASE_URL @ ''/categories''),
      \<lambda>e. http_get e (BASE_URL @ ''/search?q=test''),
      \<lambda>e s. let (j, s1) = Math_random e s
             in http_get e (BASE_URL @ ''/product/'' @ template (randomItem j testProducts)) s1]"

text \<open>
  \<^verbatim>\<open>for (let i = 0; i < 3; i++) { ... }\<close>: calling an \<^verbatim>\<open>action\<close> that is
  \<^verbatim>\<open>undefined\<close> is a TypeError.
\<close>

function stressTest_loop :: "env \<Rightarrow> nat \<Rightarrow> run_state \<Rightarrow> outcome" where
  "stressTest_loop e i s =
     (if i < 3 then
        (let (j, s1) = Math_random e s in
         case randomItem j userJourney of
           None \<Rightarrow> Threw TypeError s1
         | Some action \<Rightarrow>
             with_response (action e s1)
               (\<lambda>response s2.
                  and_then (check response [(''Request successful'', status_is_200)] s2)
                    (\<lambda>s3. stressTest_loop e (i + 1)
                             (sleep (1 / 2) (errorRate_add (status response \<noteq> 200) s3)))))
      else Returned s)"
  by pat_completeness auto
termination
  by (relation "measure (\<lambda>(e, i, s). 3 - i)") auto

definition stressTest :: "env \<Rightarrow> run_state \<Rightarrow> outcome" where
  "stressTest e s0 =
     (let (startTime, s1) = Date_now e s0
      in and_then (stressTest_loop e 0 s1)
           (\<lambda>s2. let (now, s3) = Date_now e s2
                  in Returned (pageLoadTime_add (of_int (now - startTime)) s3)))"

text \<open>\<^verbatim>\<open>responses.forEach((response, index) => { ... })\<close> of \<^verbatim>\<open>spikeTest\<close>.\<close>

fun spikeTest_forEach :: "response list \<Rightarrow> nat \<Rightarrow> run_state \<Rightarrow> outcome" where
  "spikeTest_forEach [] index s = Returned s"
| "spikeTest_forEach (response # rest) index s =
     and_then
       (check response
          [(''Batch request '' @ decimal (index + 1) @ '' successful'', status_is_200)] s)
       (\<lambda>s1. spikeTest_forEach rest (index + 1) (errorRate_add (status response \<noteq> 200) s1))"

definition spikeTest :: "env \<Rightarrow> run_state \<Rightarrow> outcome" where
  "spikeTest e s0 =
     (let (startTime, s1) = Date_now e s0
      in with_response (http_get e (BASE_URL @ ''/'') s1)
      (\<lambda>r1 s2. with_response (http_get e (BASE_URL @ ''/products'') s2)
      (\<lambda>r2 s3. with_response (http_get e (BASE_URL @ ''/api/products'') s3)
      (\<lambda>r3 s4. with_response (http_get e (BASE_URL @ ''/categories'') s4)
      (\<lambda>r4 s5.
         let requests = [r1, r2, r3, r4];
             (batch, s6) = http_batch e requests s5
         in case batch of
              Inl err \<Rightarrow> Threw err s6
            | Inr responses \<Rightarrow>
                and_then (spikeTest_forEach responses 0 s6)
                  (\<lambda>s7. let (now, s8) = Date_now e s7
                         in Returned (pageLoadTime_add (of_int (now - startTime)) s8)))))))"

definition ecommerceUserJourney :: "env \<Rightarrow> run_state \<Rightarrow> outcome" where
  "ecommerceUserJourney e s0 =
     (let (startTime, s1) = Date_now e s0
      in with_response (http_get e (BASE_URL @ ''/'') s1)
      (\<lambda>response s2.
         and_then (check response [(''Homepage loads'', status_is_200)] s2)
      (\<lambda>s3.
         let s4 = sleep 2 s3
         in with_response (http_get e (BASE_URL @ ''/categories'') s4)
      (\<lambda>response s5.
         and_then (check response [(''Categories page loads'', status_is_200)] s5)
      (\<lambda>s6.
         let s7 = sleep 1 s6
         in with_response (http_get e (BASE_URL @ ''/products'') s7)
      (\<lambda>response s8.
         and_then (check response [(''Products page loads'', status_is_200)] s8)
      (\<lambda>s9.
         let s10 = sleep 2 s9;
             (j, s11) = Math_random e s10;
             productSlug = randomItem j testProducts
         in with_response (http_get e (BASE_URL @ ''/product/'' @ template productSlug) s11)
      (\<lambda>response s12.
         and_then (check response [(''Product detail loads'', status_is_200)] s12)
      (\<lambda>s13.
         let s14 = sleep 3 s13;
             addToCartAPI = BASE_URL @ ''/api/cart/add'';
             (apiStartTime, s15) = Date_now e s14
         in with_response
              (http_post e addToCartAPI [(''productId'', ''1''), (''quantity'', ''1'')]
                 [(''Content-Type'', ''application/json'')] s15)
      (\<lambda>response s16.
         let (now, s17) = Date_now e s16;
             s18 = apiResponseTime_add (of_int (now - apiStartTime)) s17
         in and_then (check response [(''Add to cart API'', status_is_200_or_201)] s18)
      (\<lambda>s19.
         let s20 = sleep 1 s19
         in with_response (http_get e (BASE_URL @ ''/cart'') s20)
      (\<lambda>response s21.
         and_then (check response [(''Cart page loads'', status_is_200)] s21)
      (\<lambda>s22.
         let s23 = sleep 2 s22
         in with_response (http_get e (BASE_URL @ ''/checkout'') s23)
      (\<lambda>response s24.
         and_then (check response [(''Checkout page loads'', status_is_200)] s24)
      (\<lambda>s25.
         let s26 = (if status response \<noteq> 200 then checkoutErrors_add 1 s25 else s25);
             (now, s27) = Date_now e s26;
             s28 = pageLoadTime_add (of_int (now - startTime)) s27
         in Returned (sleep 1 s28))))))))))))))))"

text \<open>\<^verbatim>\<open>apiTests.forEach(test => { ... })\<close> of \<^verbatim>\<open>apiPerformanceTest\<close>.\<close>

definition apiTests :: "(string \<times> string) list" where
  "apiTests =
     [(''Products API'', BASE_URL @ ''/api/products''),
      (''Categories API'', BASE_URL @ ''/api/categories''),
      (''Search API'', BASE_URL @ ''/api/search?q=test'')]"

fun apiTests_forEach :: "env \<Rightarrow> (string \<times> string) list \<Rightarrow> run_state \<Rightarrow> outcome" where
  "apiTests_forEach e [] s = Returned s"
| "apiTests_forEach e (test # rest) s =
     with_response (http_get e (snd test) s)
       (\<lambda>response s1.
          and_then
            (check response
               [(fst test @ '' responds successfully'', status_is_200),
                (fst test @ '' response time OK'', duration_below 1000)] s1)
            (\<lambda>s2. apiTests_forEach e rest
                     (errorRate_add (status response \<noteq> 200)
                        (apiResponseTime_add (timings_duration response) s2))))"

definition apiPerformanceTest :: "env \<Rightarrow> run_state \<Rightarrow> outcome" where
  "apiPerformanceTest e s0 =
     (let (apiStartTime, s1) = Date_now e s0
      in and_then (apiTests_forEach e apiTests s1) (\<lambda>s2. Returned (sleep (1 / 2) s2)))"

text \<open>
  \<^verbatim>\<open>setup\<close> returns \<^verbatim>\<open>{ timestamp: Date.now() }\<close>, or throws when the warm-up request
  raises; \<^verbatim>\<open>teardown(data)\<close> reads the timestamp. The text of a console line is kept as
  its kind and its parameter.
\<close>

definition setup_function :: "env \<Rightarrow> run_state \<Rightarrow> (js_error + int) \<times> run_state" where
  "setup_function e s0 =
     (let s1 = console_log Starting_tests s0;
          s2 = console_log (Target_URL BASE_URL) s1;
          (warmup, s3) = http_get e (BASE_URL @ ''/'') s2
      in case warmup of
           Inl err \<Rightarrow> (Inl err, s3)
         | Inr warmupResponse \<Rightarrow>
             (let s4 = (if status warmupResponse \<noteq> 200
                        then console_log Warmup_failed s3 else s3);
                  (now, s5) = Date_now e s4
              in (Inr now, s5)))"

definition teardown_function :: "env \<Rightarrow> int \<Rightarrow> run_state \<Rightarrow> run_state" where
  "teardown_function e timestamp s0 =
     (let s1 = console_log Tests_completed s0;
          (now, s2) = Date_now e s1
      in console_log (Test_duration (now - timestamp)) s2)"

text \<open>\<^verbatim>\<open>export default function() { loadTest(); }\<close>\<close>

definition default_function :: "env \<Rightarrow> run_state \<Rightarrow> outcome" where
  "default_function e s = loadTest e s"

text \<open>
  The two tutorial scripts have one function each: a request to a public endpoint, a
  check, a pause of one second.
\<close>

definition tutorial_default :: "env \<Rightarrow> run_state \<Rightarrow> outcome" where
  "tutorial_default e s0 =
     with_response (http_get e ''https://httpbin.org/get'' s0)
       (\<lambda>response s1.
          and_then (check response [(''status is 200'', status_is_200)] s1)
            (\<lambda>s2. Returned (sleep 1 s2)))"

definition staged_default :: "env \<Rightarrow> run_state \<Rightarrow> outcome" where
  "staged_default e s0 =
     with_response (http_get e ''https://httpbin.org/get'' s0)
       (\<lambda>response s1.
          and_then
            (check response
               [(''status is 200'', status_is_200),
                (''response time < 500ms'', duration_below 500)] s1)
            (\<lambda>s2. Returned (sleep 1 s2)))"

text \<open>
  The request for \<^verbatim>\<open>GET /checkout\<close>, the seventh HTTP call of \<^verbatim>\<open>ecommerceUserJourney\<close>.
\<close>

definition checkout_request :: request where
  "checkout_request =
     \<lparr>http_method = ''GET'', url = BASE_URL @ ''/checkout'', payload = [], headers = []\<rparr>"

text \<open>
  What an execution of \<^verbatim>\<open>ecommerceUserJourney\<close> begun in state \<open>s\<close> leaves of the counter.
  If it returns, its seventh call got a response, and the counter is one higher when
  the status of that response is not 200 and as before otherwise. If it throws, the
  error is the one its latest HTTP call raised, that call is one of the seven, so no
  response to \<^verbatim>\<open>GET /checkout\<close> was read, and the counter is as before.
\<close>

definition checkout_counted :: "env \<Rightarrow> run_state \<Rightarrow> outcome \<Rightarrow> bool" where
  "checkout_counted e s x =
     (case x of
        Returned s' \<Rightarrow>
          (\<exists>r. http_response e (http_calls s + 6) checkout_request = Inr r \<and>
               checkout_errors s' = checkout_errors s + (if status r \<noteq> 200 then 1 else 0))
      | Threw err s' \<Rightarrow>
          checkout_errors s' = checkout_errors s \<and>
          http_calls s < http_calls s' \<and> http_calls s' \<le> http_calls s + 7 \<and>
          (\<exists>rq. http_response e (http_calls s' - 1) rq = Inl err))"

text \<open>
  Three environments to run the scripts in: a shop that answers every request with
  status 500 and no body, one that answers every request with status 200 and a page,
  and a network that fails every request. The state before the first iteration has no
  samples.
\<close>

definition failing_shop :: env where
  "failing_shop =
     \<lparr>http_response =
        (\<lambda>k rq. Inr \<lparr>status = 500, body = None, timings_duration = 30\<rparr>),
      http_batch_result = (\<lambda>k rqs. Inl GoError),
      date_now = (\<lambda>k. 1000 * int k),
      math_random = (\<lambda>k. 0)\<rparr>"

definition working_shop :: env where
  "working_shop =
     \<lparr>http_response =
        (\<lambda>k rq. Inr \<lparr>status = 200, body = Some ''Welcome to EverShop'',
                       timings_duration = 30\<rparr>),
      http_batch_result = (\<lambda>k rqs. Inr rqs),
      date_now = (\<lambda>k. 1000 * int k),
      math_random = (\<lambda>k. 0)\<rparr>"

definition broken_network :: env where
  "broken_network =
     \<lparr>http_response = (\<lambda>k rq. Inl GoError),
      http_batch_result = (\<lambda>k rqs. Inl GoError),
      date_now = (\<lambda>k. 1000 * int k),
      math_random = (\<lambda>k. 0)\<rparr>"

definition initial_state :: run_state where
  "initial_state =
     \<lparr>error_rate = (0, 0), page_load_time = [], api_response_time = [],
      checkout_errors = 0, checks = [], console = [],
      http_calls = 0, clock_reads = 0, random_draws = 0\<rparr>"

section \<open>The stages of the scenarios and the Stage Scheduler\<close>

text \<open>
  A stage of a ramp: its duration, in seconds, and the number of virtual users to reach
  at its end.
\<close>

record stage =
  duration :: nat
  target :: nat

text \<open>
  The stages of two scenarios of \<^verbatim>\<open>options\<close>, both with \<^verbatim>\<open>startVUs: 0\<close>: the script
  writes the durations \<^verbatim>\<open>'2m'\<close>, \<^verbatim>\<open>'5m'\<close>, \<^verbatim>\<open>'10s'\<close>, \<^verbatim>\<open>'30s'\<close> and \<^verbatim>\<open>'1m'\<close>, here
  in seconds.
\<close>

definition load_test_stages :: "stage list" where
  "load_test_stages =
     [\<lparr>duration = 120, target = 10\<rparr>,
      \<lparr>duration = 300, target = 10\<rparr>,
      \<lparr>duration = 120, target = 20\<rparr>,
      \<lparr>duration = 300, target = 20\<rparr>,
      \<lparr>duration = 120, target = 0\<rparr>]"

definition spike_test_stages :: "stage list" where
  "spike_test_stages =
     [\<lparr>duration = 10, target = 5\<rparr>,
      \<lparr>duration = 30, target = 50\<rparr>,
      \<lparr>duration = 60, target = 5\<rparr>]"


text \<open>
  Modelled from the spec: the Stage Scheduler belongs to the runtime that the scripts
  configure and is not in the repository. For a stage of duration \<open>d\<close> and target \<open>t\<close>
  it interpolates linearly between the target of the stage before and \<open>t\<close> over \<open>d\<close>; a
  stage of duration zero jumps to its target. The value is kept as a real number: the
  spec does not say how it is rounded to a number of users.
\<close>

definition interpolate :: "real \<Rightarrow> stage \<Rightarrow> real \<Rightarrow> real" where
  "interpolate start st elapsed =
     (if duration st = 0 then real (target st)
      else start + (real (target st) - start) * elapsed / real (duration st))"



text \<open>What the scheduler asks of the pool.\<close>

datatype pool_call = SetTarget real | StopAll

text \<open>
  Modelled from the spec: within a stage the scheduler samples at a fixed tick
  interval, here the second of the spec's example, and calls
  \<^verbatim>\<open>pool.setTarget(interpolated)\<close> at each tick, from the begin of the stage to its end,
  both included. A stage of duration zero has the one tick at which it jumps to its
  target. Each call is kept with its time.
\<close>

definition stage_calls :: "real \<Rightarrow> real \<Rightarrow> stage \<Rightarrow> (real \<times> pool_call) list" where
  "stage_calls start t0 st =
     map (\<lambda>k. (t0 + real k, SetTarget (interpolate start st (real k))))
       [0..<Suc (duration st)]"

text \<open>
  Modelled from the spec: the scheduler walks the stage list in order, each stage
  starting from the target of the one before; after the last stage's duration has
  elapsed it calls \<^verbatim>\<open>pool.stopAll()\<close> and returns.
\<close>

fun scheduler_walk :: "real \<Rightarrow> real \<Rightarrow> stage list \<Rightarrow> (real \<times> pool_call) list" where
  "scheduler_walk start t0 [] = [(t0, StopAll)]"
| "scheduler_walk start t0 (st # rest) =
     stage_calls start t0 st @
     scheduler_walk (real (target st)) (t0 + real (duration st)) rest"

text \<open>
  Modelled from the spec: the run of the scheduler from \<^verbatim>\<open>startVUs\<close>. An empty stage
  list means constant concurrency: the scheduler asks nothing of the pool.
\<close>

definition scheduler_run :: "nat \<Rightarrow> stage list \<Rightarrow> (real \<times> pool_call) list" where
  "scheduler_run startVUs stages =
     (if stages = [] then [] else scheduler_walk (real startVUs) 0 stages)"

text \<open>
  Modelled from the spec: the target concurrency of the pool at time \<open>t\<close> is what the
  latest call up to \<open>t\<close> asked for; the calls come in the order of their times, and
  \<^verbatim>\<open>stopAll\<close> leaves no user.
\<close>

fun target_at :: "real \<Rightarrow> (real \<times> pool_call) list \<Rightarrow> real \<Rightarrow> real" where
  "target_at current [] t = current"
| "target_at current (c # rest) t =
     (if fst c \<le> t
      then target_at (case snd c of SetTarget n \<Rightarrow> n | StopAll \<Rightarrow> 0) rest t
      else current)"

section \<open>The random index stays inside the array\<close>

text \<open>Rounding to nearest moves a value by at most half a unit in the last place.\<close>

lemma round_binary64_le: "round_binary64 x \<le> x + x div 2 ^ 53"
proof (cases "floorlog 2 x \<le> 53")
  case True then show ?thesis by (simp add: round_binary64_def)
next
  case False
  define s where "s = floorlog 2 x - 53"
  define q where "q = x div 2 ^ s"
  define r where "r = x mod 2 ^ s"
  have s1: "s \<ge> 1" using False by (simp add: s_def)
  have x: "x = q * 2 ^ s + r" unfolding q_def r_def by (rule div_mult_mod_eq[symmetric])
  have xpos: "x > 0" using False by (auto simp: floorlog_def split: if_splits)
  have "2 ^ (floorlog 2 x - 1) \<le> x" using floorlog_bounds[of x 2] xpos by simp
  moreover have "floorlog 2 x - 1 = (s - 1) + 53" using False s1 by (simp add: s_def)
  ultimately have "(2::nat) ^ (s - 1) * 2 ^ 53 \<le> x" by (simp add: power_add)
  then have half: "2 ^ (s - 1) \<le> x div 2 ^ 53"
    by (simp add: less_eq_div_iff_mult_less_eq)
  have two: "(2::nat) ^ s = 2 * 2 ^ (s - 1)" using s1 by (cases s) simp_all
  have rlt: "r < 2 ^ s" by (simp add: r_def)
  have "round_binary64 x \<le> x + 2 ^ (s - 1)"
  proof (cases "2 * r > 2 ^ s \<or> (2 * r = 2 ^ s \<and> odd q)")
    case True
    then have "round_binary64 x = (q + 1) * 2 ^ s"
      using False by (simp add: round_binary64_def Let_def s_def q_def r_def)
    moreover from True have "2 * r \<ge> 2 ^ s" by auto
    ultimately show ?thesis using x two by (simp add: algebra_simps)
  next
    case F: False
    then have "round_binary64 x = q * 2 ^ s"
      using False by (simp add: round_binary64_def Let_def s_def q_def r_def)
    then show ?thesis using x by simp
  qed
  then show ?thesis using half by linarith
qed


lemma units_split: "units = 2 ^ 53 * 2 ^ 1021" "units = 2 ^ 106 * 2 ^ 968"
  by (simp_all add: units_def flip: power_add)

lemma is_binary64_scaled:
  assumes "m < 2 ^ 53"
  shows "is_binary64 (m * 2 ^ c)"
proof (cases "floorlog 2 (m * 2 ^ c) \<le> 53")
  case True then show ?thesis by (simp add: is_binary64_def round_binary64_def)
next
  case False
  then have mpos: "m > 0" by (auto simp: floorlog_def split: if_splits)
  have "floorlog 2 m \<le> 53" using assms by (simp add: floorlog_le_iff)
  then have "floorlog 2 (m * 2 ^ c) - 53 \<le> c" using mpos by simp
  then obtain d where c: "c = (floorlog 2 (m * 2 ^ c) - 53) + d"
    using le_Suc_ex by blast
  define s where "s = floorlog 2 (m * 2 ^ c) - 53"
  have e: "m * 2 ^ c = (m * 2 ^ d) * 2 ^ s"
    using c by (metis s_def add.commute mult.assoc power_add)
  have dv: "2 ^ s dvd m * 2 ^ c" by (subst e) simp
  then have "(m * 2 ^ c) mod 2 ^ s = 0" "(m * 2 ^ c) div 2 ^ s * 2 ^ s = m * 2 ^ c"
    by simp_all
  then show ?thesis using False
    by (simp add: is_binary64_def round_binary64_def Let_def flip: s_def)
qed

lemma random_value_bound:
  assumes "is_random_value j"
  shows "j + 2 ^ 1021 \<le> units"
proof -
  from assms have rj: "round_binary64 j = j" and lt: "j < units"
    by (simp_all add: is_random_value_def is_binary64_def)
  have b: "floorlog 2 j \<le> 1074" using lt by (simp add: floorlog_le_iff units_def)
  show ?thesis
  proof (cases "floorlog 2 j \<le> 1073")
    case True
    then have "j < 2 ^ 1073" by (simp add: floorlog_le_iff)
    moreover have "(2::nat) ^ 1073 + 2 ^ 1021 \<le> 2 ^ 1074" by simp
    ultimately show ?thesis by (simp add: units_def)
  next
    case False
    with b have fl: "floorlog 2 j = 1074" by simp
    define q where "q = j div 2 ^ 1021"
    define r where "r = j mod 2 ^ 1021"
    have j: "j = q * 2 ^ 1021 + r" unfolding q_def r_def by (rule div_mult_mod_eq[symmetric])
    have rlt: "r < 2 ^ 1021" by (simp add: r_def)
    have "round_binary64 j = (q + 1) * 2 ^ 1021 \<or> round_binary64 j = q * 2 ^ 1021"
      using fl by (simp add: round_binary64_def Let_def q_def)
    with rj j rlt have jq: "j = q * 2 ^ 1021" by auto
    with lt have "q * 2 ^ 1021 < 2 ^ 53 * 2 ^ 1021" by (simp add: units_split(1))
    then have "q < 2 ^ 53" by simp
    then have "q + 1 \<le> 2 ^ 53" by simp
    then have "(q + 1) * 2 ^ 1021 \<le> 2 ^ 53 * (2::nat) ^ 1021" by (rule mult_le_mono1)
    then show ?thesis using jq by (simp add: units_split(1))
  qed
qed

lemma random_index_less:
  assumes "is_random_value j" and "0 < n"
  shows "random_index j n < n"
proof -
  define Q :: nat where "Q = 2 ^ 968"
  define M where "M = (2 ^ 53 - 1) * (Q * n)"
  have u: "units = 2 ^ 106 * Q" by (simp add: units_split(2) Q_def)
  have P: "(2::nat) ^ 1021 = 2 ^ 53 * Q" by (simp add: Q_def flip: power_add)
  have "j + 2 ^ 53 * Q \<le> 2 ^ 106 * Q" using random_value_bound[OF assms(1)] unfolding u P .
  then have "j \<le> (2 ^ 53 - 1) * 2 ^ 53 * Q" by (simp add: algebra_simps)
  then have "j * n \<le> ((2 ^ 53 - 1) * 2 ^ 53 * Q) * n" by (rule mult_le_mono1)
  then have N: "j * n \<le> M * 2 ^ 53" by (simp add: M_def algebra_simps)
  then have "(j * n) div 2 ^ 53 \<le> (M * 2 ^ 53) div 2 ^ 53" by (rule div_le_mono)
  then have D: "(j * n) div 2 ^ 53 \<le> M" by simp
  have "round_binary64 (j * n) \<le> j * n + (j * n) div 2 ^ 53" by (rule round_binary64_le)
  with N D have "round_binary64 (j * n) \<le> M * 2 ^ 53 + M" by linarith
  also have "\<dots> = (2 ^ 106 - 1) * (Q * n)" by (simp add: M_def algebra_simps)
  also have "\<dots> < 2 ^ 106 * (Q * n)" using assms(2) by (simp add: Q_def)
  finally have "round_binary64 (j * n) < n * units" by (simp add: u algebra_simps)
  then show ?thesis by (simp add: random_index_def less_mult_imp_div_less)
qed

text \<open>A draw of 0.75 on the four products: the index is 3, the last product.\<close>

lemma random_index_three_quarters: "random_index (3 * 2 ^ 1072) 4 = 3"
proof -
  have "is_binary64 (3 * 2 ^ 1074)" by (rule is_binary64_scaled) simp
  then have r: "round_binary64 (3 * 2 ^ 1074) = 3 * 2 ^ 1074" by (simp only: is_binary64_def)
  have "(3 * 2 ^ 1072 * 4 :: nat) = 3 * 2 ^ 1074" by simp
  then have "random_index (3 * 2 ^ 1072) 4 = (3 * 2 ^ 1074) div units"
    by (simp only: random_index_def r)
  also have "\<dots> = 3" by (simp add: units_def)
  finally show ?thesis .
qed

lemma randomItem_three_quarters:
  "randomItem (3 * 2 ^ 1072) testProducts = Some ''accessories''"
proof -
  have l: "length testProducts = 4" by (simp add: testProducts_def)
  have "randomItem (3 * 2 ^ 1072) testProducts = js_index testProducts 3"
    by (simp only: randomItem_def l random_index_three_quarters)
  also have "\<dots> = Some ''accessories''" by (simp add: js_index_def testProducts_def)
  finally show ?thesis .
qed

text \<open>
  C9. For every non-empty array and every value that \<^verbatim>\<open>Math.random()\<close> can return (a
  binary64 value \<open>r\<close> with \<open>0 \<le> r < 1\<close>), the index
  \<^verbatim>\<open>Math.floor(Math.random() * array.length)\<close>, computed with the rounding of the
  product, lies in \<open>0 .. array.length - 1\<close>, and \<^verbatim>\<open>randomItem\<close> returns the element
  at that index, an element of the array. For the empty array \<^verbatim>\<open>randomItem\<close> returns
  \<^verbatim>\<open>undefined\<close> and raises nothing.
\<close>

theorem randomItem_in_array:
  assumes "is_random_value j"
  shows "(array \<noteq> [] \<longrightarrow>
            random_index j (length array) < length array \<and>
            randomItem j array = Some (array ! random_index j (length array)) \<and>
            array ! random_index j (length array) \<in> set array) \<and>
         randomItem j ([] :: 'a list) = None"
proof -
  have "random_index j (length array) < length array" if "array \<noteq> []"
    using random_index_less[OF assms, of "length array"] that by simp
  then show ?thesis
    by (simp add: randomItem_def js_index_def)
qed

theorem randomItem_in_array_witness:
  "is_random_value (3 * 2 ^ 1072) \<and> testProducts \<noteq> [] \<and>
   random_index (3 * 2 ^ 1072) (length testProducts) < length testProducts \<and>
   randomItem (3 * 2 ^ 1072) testProducts
     = Some (testProducts ! random_index (3 * 2 ^ 1072) (length testProducts)) \<and>
   randomItem (3 * 2 ^ 1072) testProducts = Some ''accessories'' \<and>
   randomItem (3 * 2 ^ 1072) ([] :: string list) = None"
proof -
  have "is_binary64 (3 * 2 ^ 1072)" by (rule is_binary64_scaled) simp
  then have h: "is_random_value (3 * 2 ^ 1072)"
    by (simp add: is_random_value_def units_def)
  have ne: "testProducts \<noteq> []" by (simp add: testProducts_def)
  show ?thesis
    using h ne randomItem_in_array [OF h, of testProducts] randomItem_three_quarters
    by blast
qed

section \<open>Only the checkout step touches the counter of checkout errors\<close>

declare stressTest_loop.simps [simp del]

lemmas runtime_defs =
  Date_now_def Math_random_def http_request_def http_get_def http_post_def http_batch_def
  sleep_def console_log_def add_check_def errorRate_add_def pageLoadTime_add_def
  apiResponseTime_add_def checkoutErrors_add_def Counter_add_def

lemma checkout_errors_kept:
  "checkout_errors (snd (Date_now e s)) = checkout_errors s"
  "checkout_errors (snd (Math_random e s)) = checkout_errors s"
  "checkout_errors (snd (http_request e rq s)) = checkout_errors s"
  "checkout_errors (snd (http_get e u s)) = checkout_errors s"
  "checkout_errors (snd (http_post e u p h s)) = checkout_errors s"
  "checkout_errors (snd (http_batch e rqs s)) = checkout_errors s"
  "checkout_errors (sleep t s) = checkout_errors s"
  "checkout_errors (random_sleep e s) = checkout_errors s"
  "checkout_errors (console_log l s) = checkout_errors s"
  "checkout_errors (add_check n b s) = checkout_errors s"
  "checkout_errors (errorRate_add b s) = checkout_errors s"
  "checkout_errors (pageLoadTime_add v s) = checkout_errors s"
  "checkout_errors (apiResponseTime_add v s) = checkout_errors s"
  "checkout_errors (checkoutErrors_add i s) = checkout_errors s + i"
  by (simp_all add: runtime_defs random_sleep_def)

lemma http_calls_counted:
  "http_calls (snd (Date_now e s)) = http_calls s"
  "http_calls (snd (Math_random e s)) = http_calls s"
  "http_calls (snd (http_request e rq s)) = Suc (http_calls s)"
  "http_calls (sleep t s) = http_calls s"
  "http_calls (add_check n b s) = http_calls s"
  "http_calls (pageLoadTime_add v s) = http_calls s"
  "http_calls (apiResponseTime_add v s) = http_calls s"
  "http_calls (checkoutErrors_add i s) = http_calls s"
  by (simp_all add: runtime_defs)

lemma check_checkout_errors:
  "checkout_errors (final (check r ps s)) = checkout_errors s"
  by (induction ps arbitrary: s) (auto simp: checkout_errors_kept split: sum.splits)

lemma and_then_checkout_errors:
  assumes "checkout_errors (final x) = c"
    and "\<And>s. checkout_errors s = c \<Longrightarrow> checkout_errors (final (f s)) = c"
  shows "checkout_errors (final (and_then x f)) = c"
  using assms by (cases x) auto

lemma and_then_check_checkout_errors:
  assumes "checkout_errors s = c"
    and "\<And>s'. checkout_errors s' = c \<Longrightarrow> checkout_errors (final (f s')) = c"
  shows "checkout_errors (final (and_then (check r ps s) f)) = c"
  by (rule and_then_checkout_errors) (simp_all add: check_checkout_errors assms)

lemma with_response_checkout_errors:
  assumes "checkout_errors (snd x) = c"
    and "\<And>r s'. checkout_errors s' = c \<Longrightarrow> checkout_errors (final (f r s')) = c"
  shows "checkout_errors (final (with_response x f)) = c"
  using assms by (simp add: with_response_def split: sum.splits)

lemmas frame_rules = with_response_checkout_errors and_then_check_checkout_errors

lemma js_index_in_set: "js_index xs i = Some a \<Longrightarrow> a \<in> set xs"
  by (auto simp: js_index_def split: if_splits)

lemma userJourney_checkout_errors:
  assumes "action \<in> set userJourney"
  shows "checkout_errors (snd (action e s)) = checkout_errors s"
  using assms by (auto simp: userJourney_def checkout_errors_kept case_prod_beta)

lemma stressTest_loop_checkout_errors:
  "checkout_errors (final (stressTest_loop e i s)) = checkout_errors s"
proof (induction e i s rule: stressTest_loop.induct)
  case (1 e i s)
  show ?case
  proof (cases "i < 3")
    case False
    then show ?thesis by (subst stressTest_loop.simps) simp
  next
    case True
    obtain j s1 where mr: "Math_random e s = (j, s1)" by (cases "Math_random e s")
    have c1: "checkout_errors s1 = checkout_errors s"
      using checkout_errors_kept(2)[of e s] mr by simp
    show ?thesis
    proof (cases "randomItem j userJourney")
      case None
      then show ?thesis using True mr c1 by (subst stressTest_loop.simps) simp
    next
      case (Some action)
      then have mem: "action \<in> set userJourney"
        by (auto simp: randomItem_def dest: js_index_in_set)
      have c2: "checkout_errors (snd (action e s1)) = checkout_errors s"
        using userJourney_checkout_errors[OF mem, of e s1] c1 by simp
      have step: "checkout_errors (final (stressTest_loop e (i + 1)
            (sleep (1 / 2) (errorRate_add (status response \<noteq> 200) s3)))) = checkout_errors s"
        if "checkout_errors s3 = checkout_errors s" for s3 and response :: response
        using "1.IH"[OF True refl mr[symmetric] Some, of response s3] that
        by (simp add: checkout_errors_kept)
      have "checkout_errors (final (with_response (action e s1)
              (\<lambda>response s2. and_then
                (check response [(''Request successful'', status_is_200)] s2)
                (\<lambda>s3. stressTest_loop e (i + 1)
                   (sleep (1 / 2) (errorRate_add (status response \<noteq> 200) s3)))))) =
            checkout_errors s"
        by (rule with_response_checkout_errors, rule c2,
            rule and_then_check_checkout_errors, assumption, rule step)
      then show ?thesis using True mr Some by (subst stressTest_loop.simps) simp
    qed
  qed
qed

lemma spikeTest_forEach_checkout_errors:
  "checkout_errors (final (spikeTest_forEach rs index s)) = checkout_errors s"
proof (induction rs arbitrary: index s)
  case Nil
  show ?case by simp
next
  case (Cons response rest)
  show ?case
    unfolding spikeTest_forEach.simps
    by (rule and_then_check_checkout_errors) (simp_all add: Cons.IH checkout_errors_kept)
qed

lemma apiTests_forEach_checkout_errors:
  "checkout_errors (final (apiTests_forEach e ts s)) = checkout_errors s"
proof (induction ts arbitrary: s)
  case Nil
  show ?case by simp
next
  case (Cons test rest)
  show ?case
    unfolding apiTests_forEach.simps
    by (rule with_response_checkout_errors, simp add: checkout_errors_kept,
        rule and_then_check_checkout_errors, assumption,
        simp add: Cons.IH checkout_errors_kept)
qed

lemma smokeTest_checkout_errors:
  "checkout_errors (final (smokeTest e s)) = checkout_errors s"
  unfolding smokeTest_def case_prod_beta Let_def
  by ((rule frame_rules, simp add: checkout_errors_kept)+, simp add: checkout_errors_kept)

lemma loadTest_checkout_errors:
  "checkout_errors (final (loadTest e s)) = checkout_errors s"
  unfolding loadTest_def case_prod_beta Let_def
  by ((rule frame_rules, simp add: checkout_errors_kept)+, simp add: checkout_errors_kept)

lemma stressTest_checkout_errors:
  "checkout_errors (final (stressTest e s)) = checkout_errors s"
  unfolding stressTest_def case_prod_beta Let_def
  by (rule and_then_checkout_errors)
     (simp_all add: stressTest_loop_checkout_errors checkout_errors_kept)

lemma spikeTest_tail_checkout_errors:
  assumes "checkout_errors s5 = checkout_errors s"
  shows "checkout_errors (final
           (let requests = rs; (batch, s6) = http_batch e requests s5
            in case batch of
                 Inl err \<Rightarrow> Threw err s6
               | Inr responses \<Rightarrow>
                   and_then (spikeTest_forEach responses 0 s6)
                     (\<lambda>s7. let (now, s8) = Date_now e s7
                            in Returned (pageLoadTime_add (of_int (now - startTime)) s8)))) =
         checkout_errors s"
proof -
  have "checkout_errors (final (and_then (spikeTest_forEach responses 0 s6) f)) =
          checkout_errors s"
    if "checkout_errors s6 = checkout_errors s"
      and "\<And>s7. checkout_errors s7 = checkout_errors s \<Longrightarrow>
             checkout_errors (final (f s7)) = checkout_errors s" for s6 f responses
    by (rule and_then_checkout_errors) (simp_all add: spikeTest_forEach_checkout_errors that)
  then show ?thesis
    using assms by (simp add: case_prod_beta checkout_errors_kept split: sum.splits)
qed

lemma spikeTest_checkout_errors:
  "checkout_errors (final (spikeTest e s)) = checkout_errors s"
  unfolding spikeTest_def
  by (simp only: case_prod_beta Let_def [of "Date_now e s"])
     ((rule with_response_checkout_errors, simp add: checkout_errors_kept)+,
      rule spikeTest_tail_checkout_errors, assumption)

lemma apiPerformanceTest_checkout_errors:
  "checkout_errors (final (apiPerformanceTest e s)) = checkout_errors s"
  unfolding apiPerformanceTest_def case_prod_beta Let_def
  by (rule and_then_checkout_errors)
     (simp_all add: apiTests_forEach_checkout_errors checkout_errors_kept)

lemma setup_teardown_checkout_errors:
  "checkout_errors (snd (setup_function e s)) = checkout_errors s"
  "checkout_errors (teardown_function e t s) = checkout_errors s"
  by (simp_all add: setup_function_def teardown_function_def checkout_errors_kept
        case_prod_beta Let_def split: sum.splits)

lemma tutorial_checkout_errors:
  "checkout_errors (final (tutorial_default e s)) = checkout_errors s"
  "checkout_errors (final (staged_default e s)) = checkout_errors s"
  unfolding tutorial_default_def staged_default_def
  by ((rule frame_rules, simp add: checkout_errors_kept)+, simp add: checkout_errors_kept)+

lemma check_status:
  "check r [(n, status_is_200)] s = Returned (add_check n (status r = 200) s)"
  "check r [(n, status_is_200_or_201)] s =
     Returned (add_check n (status r = 200 \<or> status r = 201) s)"
  by (simp_all add: status_is_200_def status_is_200_or_201_def)

lemma counted_after_check:
  assumes "\<And>s'. http_calls s' = http_calls st \<Longrightarrow> checkout_errors s' = checkout_errors st
             \<Longrightarrow> checkout_counted e s (f s')"
  shows "checkout_counted e s (and_then (check r [(n, status_is_200)] st) f)"
    and "checkout_counted e s (and_then (check r [(n, status_is_200_or_201)] st) f)"
  by (simp_all add: check_status assms http_calls_counted checkout_errors_kept
        del: check.simps)

lemma counted_after_request:
  assumes "\<And>err. http_response e (http_calls st) rq = Inl err \<Longrightarrow>
             checkout_counted e s (Threw err (snd (http_request e rq st)))"
    and "\<And>r s'. http_response e (http_calls st) rq = Inr r \<Longrightarrow>
             http_calls s' = Suc (http_calls st) \<Longrightarrow> checkout_errors s' = checkout_errors st
             \<Longrightarrow> checkout_counted e s (f r s')"
  shows "checkout_counted e s (with_response (http_request e rq st) f)"
proof (cases "http_response e (http_calls st) rq")
  case (Inl err)
  then show ?thesis using assms(1) [OF Inl] by (simp add: with_response_def http_request_def)
next
  case (Inr r)
  have "checkout_counted e s (f r (snd (http_request e rq st)))"
    by (rule assms(2) [OF Inr]) (simp_all add: http_calls_counted checkout_errors_kept)
  then show ?thesis using Inr by (simp add: with_response_def http_request_def)
qed

lemma add_6: "n + 6 = Suc (Suc (Suc (Suc (Suc (Suc n)))))"
  by simp

lemmas journey_facts =
  checkout_counted_def http_calls_counted checkout_errors_kept add_6 checkout_request_def

lemma ecommerceUserJourney_counted:
  "checkout_counted e s (ecommerceUserJourney e s)"
  unfolding ecommerceUserJourney_def case_prod_beta Let_def http_get_def http_post_def
  by (((rule counted_after_request, (auto simp add: journey_facts)[1])
       | rule counted_after_check)+,
      auto simp add: journey_facts)


text \<open>
  C10. Every execution of \<^verbatim>\<open>ecommerceUserJourney\<close> returns or throws. If it returns, its
  seventh HTTP call, \<^verbatim>\<open>GET /checkout\<close>, got a response, and \<^verbatim>\<open>checkout_errors\<close> is
  one higher when the status of that response is not 200 and as it was otherwise. If
  it throws, the error is the one raised by its latest HTTP call, one of the seven, so
  no response to \<^verbatim>\<open>GET /checkout\<close> was read, and \<^verbatim>\<open>checkout_errors\<close> is as it was.
  No other function of the scripts changes \<^verbatim>\<open>checkout_errors\<close>, whether it returns or
  throws.
\<close>

theorem checkout_errors_frame:
  "(case ecommerceUserJourney e s of
      Returned s' \<Rightarrow>
        (\<exists>r. http_response e (http_calls s + 6) checkout_request = Inr r \<and>
             checkout_errors s' = checkout_errors s + (if status r \<noteq> 200 then 1 else 0))
    | Threw err s' \<Rightarrow>
        checkout_errors s' = checkout_errors s \<and>
        http_calls s < http_calls s' \<and> http_calls s' \<le> http_calls s + 7 \<and>
        (\<exists>rq. http_response e (http_calls s' - 1) rq = Inl err)) \<and>
   checkout_errors (final (smokeTest e s)) = checkout_errors s \<and>
   checkout_errors (final (loadTest e s)) = checkout_errors s \<and>
   checkout_errors (final (stressTest e s)) = checkout_errors s \<and>
   checkout_errors (final (spikeTest e s)) = checkout_errors s \<and>
   checkout_errors (final (apiPerformanceTest e s)) = checkout_errors s \<and>
   checkout_errors (final (default_function e s)) = checkout_errors s \<and>
   checkout_errors (snd (setup_function e s)) = checkout_errors s \<and>
   checkout_errors (teardown_function e timestamp s) = checkout_errors s \<and>
   checkout_errors (final (tutorial_default e s)) = checkout_errors s \<and>
   checkout_errors (final (staged_default e s)) = checkout_errors s"
  using ecommerceUserJourney_counted [of e s]
  by (simp only: checkout_counted_def smokeTest_checkout_errors loadTest_checkout_errors
        stressTest_checkout_errors spikeTest_checkout_errors apiPerformanceTest_checkout_errors
        default_function_def setup_teardown_checkout_errors tutorial_checkout_errors simp_thms)

theorem checkout_errors_frame_witness:
  "(\<exists>s'. ecommerceUserJourney failing_shop initial_state = Returned s' \<and>
      checkout_errors s' = 1) \<and>
   (\<exists>s'. ecommerceUserJourney working_shop initial_state = Returned s' \<and>
      checkout_errors s' = 0) \<and>
   (\<exists>err s'. ecommerceUserJourney broken_network initial_state = Threw err s' \<and>
      checkout_errors s' = 0) \<and>
   checkout_errors (final (smokeTest failing_shop initial_state)) = 0 \<and>
   checkout_errors (final (spikeTest broken_network initial_state)) = 0"
proof -
  have a: "\<exists>s'. ecommerceUserJourney failing_shop initial_state = Returned s' \<and>
             checkout_errors s' = 1"
    using checkout_errors_frame [of failing_shop initial_state 0]
    by (cases "ecommerceUserJourney failing_shop initial_state")
       (simp_all add: failing_shop_def initial_state_def)
  have b: "\<exists>s'. ecommerceUserJourney working_shop initial_state = Returned s' \<and>
             checkout_errors s' = 0"
    using checkout_errors_frame [of working_shop initial_state 0]
    by (cases "ecommerceUserJourney working_shop initial_state")
       (simp_all add: working_shop_def initial_state_def)
  have c: "\<exists>err s'. ecommerceUserJourney broken_network initial_state = Threw err s' \<and>
             checkout_errors s' = 0"
    using checkout_errors_frame [of broken_network initial_state 0]
    by (cases "ecommerceUserJourney broken_network initial_state")
       (simp_all add: broken_network_def initial_state_def)
  have d: "checkout_errors (final (smokeTest failing_shop initial_state)) = 0"
    "checkout_errors (final (spikeTest broken_network initial_state)) = 0"
    using checkout_errors_frame [of failing_shop initial_state 0]
      checkout_errors_frame [of broken_network initial_state 0]
    by (simp_all add: initial_state_def)
  show ?thesis using a b c d by blast
qed

section \<open>The ramp of the Stage Scheduler\<close>







text \<open>
  C8, as stated: for the stages of \<^verbatim>\<open>spike_test\<close>, 10 s to 5, 30 s to 50, 60 s to 5, from
  0 users, the target would be 5 at 10 s, between 27 and 28 at 25 s, and 5 at 40 s. It
  is not: 40 s is the end of the second stage, where the target is 50.
\<close>

theorem spike_test_concurrency_counterexample:
  "\<not> (target_at 0 (scheduler_run 0 spike_test_stages) 10 = 5 \<and>
      27 \<le> target_at 0 (scheduler_run 0 spike_test_stages) 25 \<and>
      target_at 0 (scheduler_run 0 spike_test_stages) 25 \<le> 28 \<and>
      target_at 0 (scheduler_run 0 spike_test_stages) 40 = 5)"
  by (simp add: scheduler_run_def spike_test_stages_def stage_calls_def interpolate_def upt_rec)

text \<open>
  C8, amended: the target is 5 at 10 s, between 27 and 28 at 25 s (the middle of the
  second stage), and 50 at 40 s (the end of the second stage).
\<close>

theorem spike_test_concurrency:
  "target_at 0 (scheduler_run 0 spike_test_stages) 10 = 5 \<and>
   27 \<le> target_at 0 (scheduler_run 0 spike_test_stages) 25 \<and>
   target_at 0 (scheduler_run 0 spike_test_stages) 25 \<le> 28 \<and>
   target_at 0 (scheduler_run 0 spike_test_stages) 40 = 50"
  by (simp add: scheduler_run_def spike_test_stages_def stage_calls_def interpolate_def upt_rec)


end
